theory Spec2Isabelle
  imports Main "HOL-Library.Word"
begin

section \<open>JavaScript strings\<close>

text \<open>
  A JavaScript string is a sequence of UTF-16 code units. The service's string operations
  (\<^verbatim>\<open>replace\<close> with a character class, \<^verbatim>\<open>startsWith\<close>, \<^verbatim>\<open>substring\<close>, \<^verbatim>\<open>trim\<close>,
  \<^verbatim>\<open>split\<close>, \<^verbatim>\<open>join\<close>) all work code unit by code unit, so a string is a list of
  16-bit words. \<open>js\<close> reads an ASCII literal of this theory as such a string.
\<close>

type_synonym code_unit = "16 word"
type_synonym jsstring = "code_unit list"

definition js :: "string \<Rightarrow> jsstring" where
  "js s = map of_char s"

text \<open>The class \<^verbatim>\<open>\d\<close> of a regular expression is \<^verbatim>\<open>[0-9]\<close>; \<^verbatim>\<open>\D\<close> is its complement.\<close>

definition isDigit :: "code_unit \<Rightarrow> bool" where
  "isDigit c \<longleftrightarrow> 48 \<le> c \<and> c \<le> 57"

text \<open>\<^verbatim>\<open>s.startsWith(p)\<close>\<close>

definition startsWith :: "jsstring \<Rightarrow> jsstring \<Rightarrow> bool" where
  "startsWith s p \<longleftrightarrow> take (length p) s = p"

section \<open>Phone number normalisation\<close>

text \<open>\<^verbatim>\<open>phone.replace(/\D/g, '')\<close>: every code unit that is not a digit is removed.\<close>

definition cleaned :: "jsstring \<Rightarrow> jsstring" where
  "cleaned phone = filter isDigit phone"

text \<open>
  The block guarded by \<^verbatim>\<open>cleaned.length >= 10\<close> (lines 693 to 717 of
  \<^verbatim>\<open>vapi-outbound-service.ts\<close>). It returns from the function in each of its branches;
  \<open>None\<close> stands for leaving the block without returning.
\<close>

definition countryCodeBranch :: "jsstring \<Rightarrow> jsstring option" where
  "countryCodeBranch c =
    (if 10 \<le> length c then
       (if startsWith c (js ''1'') \<and> length c = 11 then Some (js ''+'' @ c)
        else if startsWith c (js ''44'') \<and> 11 \<le> length c then Some (js ''+'' @ c)
        else if startsWith c (js ''356'') \<and> length c = 11 then Some (js ''+'' @ c)
        else if startsWith c (js ''39'') \<and> 10 \<le> length c then Some (js ''+'' @ c)
        else if startsWith c (js ''33'') \<and> 10 \<le> length c then Some (js ''+'' @ c)
        else if startsWith c (js ''49'') \<and> 11 \<le> length c then Some (js ''+'' @ c)
        else if 10 \<le> length c then Some (js ''+'' @ c)
        else None)
     else None)"

text \<open>The block for Malta numbers written without a country code (lines 719 to 725).\<close>

definition maltaBranch :: "jsstring \<Rightarrow> jsstring option" where
  "maltaBranch c =
    (if length c = 8 then
       (if startsWith c (js ''9'') \<or> startsWith c (js ''7'') then Some (js ''+356'' @ c)
        else None)
     else None)"

text \<open>
  \<^verbatim>\<open>formatPhoneNumber\<close> (lines 686 to 737). \<^verbatim>\<open>!phone\<close> holds of the empty string;
  \<^verbatim>\<open>cleaned.substring(1)\<close> drops the first code unit.
\<close>

definition formatPhoneNumber :: "jsstring \<Rightarrow> jsstring" where
  "formatPhoneNumber phone =
    (if phone = [] then []
     else
       let c = cleaned phone in
       case countryCodeBranch c of
         Some r \<Rightarrow> r
       | None \<Rightarrow>
           (case maltaBranch c of
              Some r \<Rightarrow> r
            | None \<Rightarrow>
                if length c = 10 then js ''+44'' @ c
                else if length c = 11 \<and> startsWith c (js ''0'') then js ''+44'' @ drop 1 c
                else if startsWith c (js ''+'') then c
                else js ''+'' @ c))"

section \<open>CSV lead ingestion\<close>

subsection \<open>Values and string helpers\<close>

text \<open>
  \<^verbatim>\<open>csv-parser\<close> hands the handler one object per data line: a finite map from the
  header names to the cells of the line, all strings. Reading a property the object does
  not have gives \<^verbatim>\<open>undefined\<close>, here \<open>None\<close>.
\<close>

type_synonym row = "jsstring \<rightharpoonup> jsstring"

text \<open>
  Truthiness of a value that is a string or \<^verbatim>\<open>undefined\<close>: \<^verbatim>\<open>undefined\<close> and the
  empty string are falsy. \<^verbatim>\<open>a || b\<close> is \<^verbatim>\<open>a\<close> when \<^verbatim>\<open>a\<close> is truthy, else \<^verbatim>\<open>b\<close>.
\<close>

fun truthy :: "jsstring option \<Rightarrow> bool" where
  "truthy None = False"
| "truthy (Some s) = (s \<noteq> [])"

definition js_or :: "jsstring option \<Rightarrow> jsstring option \<Rightarrow> jsstring option" where
  "js_or a b = (if truthy a then a else b)"

text \<open>
  White space and line terminators of ECMAScript, as \<^verbatim>\<open>trim\<close> and the class \<^verbatim>\<open>\s\<close>
  read them: TAB, LF, VT, FF, CR, SP, NBSP, U+1680, U+2000 to U+200A, U+2028, U+2029,
  U+202F, U+205F, U+3000 and U+FEFF.
\<close>

definition isWhiteSpace :: "code_unit \<Rightarrow> bool" where
  "isWhiteSpace c \<longleftrightarrow>
     c \<in> {0x9, 0xA, 0xB, 0xC, 0xD, 0x20, 0xA0, 0x1680, 0x2028, 0x2029, 0x202F, 0x205F,
          0x3000, 0xFEFF}
     \<or> (0x2000 \<le> c \<and> c \<le> 0x200A)"

text \<open>\<^verbatim>\<open>s.trim()\<close>\<close>

definition trim :: "jsstring \<Rightarrow> jsstring" where
  "trim s = rev (dropWhile isWhiteSpace (rev (dropWhile isWhiteSpace s)))"

text \<open>
  \<^verbatim>\<open>s.split(sep)\<close> for a separator of one code unit: the pieces between the separators,
  the empty string included (\<^verbatim>\<open>''.split(' ')\<close> is \<^verbatim>\<open>['']\<close>).
\<close>

fun split_on :: "code_unit \<Rightarrow> jsstring \<Rightarrow> jsstring list" where
  "split_on sep [] = [[]]"
| "split_on sep (c # cs) =
     (if c = sep then [] # split_on sep cs
      else (case split_on sep cs of
              [] \<Rightarrow> [[c]]
            | p # ps \<Rightarrow> (c # p) # ps))"

text \<open>\<^verbatim>\<open>parts.join(sep)\<close>\<close>

fun join :: "jsstring \<Rightarrow> jsstring list \<Rightarrow> jsstring" where
  "join sep [] = []"
| "join sep [p] = p"
| "join sep (p # q # ps) = p @ sep @ join sep (q # ps)"

text \<open>The space, \<^verbatim>\<open>' '\<close>.\<close>

definition SP :: code_unit where
  "SP = 0x20"

text \<open>A number inside a template literal: its decimal digits.\<close>

fun decimal :: "nat \<Rightarrow> jsstring" where
  "decimal n = (if n < 10 then [of_nat (48 + n)]
                else decimal (n div 10) @ [of_nat (48 + n mod 10)])"

subsection \<open>Column aliases (lines 290 to 304)\<close>

definition phoneField :: "row \<Rightarrow> jsstring option" where
  "phoneField r =
     js_or (js_or (js_or (js_or (js_or (r (js ''phone'')) (r (js ''number'')))
       (r (js ''telephone''))) (r (js ''phoneNumber''))) (r (js ''Phone''))) (r (js ''Number''))"

definition nameField :: "row \<Rightarrow> jsstring option" where
  "nameField r = js_or (r (js ''name'')) (r (js ''Name''))"

definition firstNameField :: "row \<Rightarrow> jsstring option" where
  "firstNameField r =
     js_or (js_or (js_or (r (js ''firstName'')) (r (js ''first_name'')))
       (r (js ''FirstName''))) (r (js ''firstname''))"

definition lastNameField :: "row \<Rightarrow> jsstring option" where
  "lastNameField r =
     js_or (js_or (js_or (r (js ''lastName'')) (r (js ''last_name'')))
       (r (js ''LastName''))) (r (js ''lastname''))"

text \<open>
  The values of \<^verbatim>\<open>firstName\<close> and \<^verbatim>\<open>lastName\<close> after line 304. \<^verbatim>\<open>nameParts[0]\<close> is
  \<^verbatim>\<open>undefined\<close> for an empty array; \<^verbatim>\<open>nameParts.slice(1)\<close> drops the first part.
\<close>

definition resolveNames :: "row \<Rightarrow> jsstring option \<times> jsstring option" where
  "resolveNames r =
     (let fn = firstNameField r; ln = lastNameField r in
      if \<not> truthy fn \<and> \<not> truthy ln \<and> truthy (nameField r) then
        (case nameField r of
           None \<Rightarrow> (fn, ln)
         | Some n \<Rightarrow>
             let nameParts = split_on SP (trim n) in
             (case nameParts of [] \<Rightarrow> None | p # _ \<Rightarrow> Some p,
              js_or (Some (join [SP] (drop 1 nameParts))) (Some [])))
      else (fn, ln))"

subsection \<open>One row (lines 288 to 346)\<close>

text \<open>
  \<^verbatim>\<open>phoneField.replace(/[\s\-\(\)]/g, '')\<close> and the test of
  \<^verbatim>\<open>/^\+?[1-9]\d{1,14}$/\<close>: an optional \<^verbatim>\<open>+\<close>, a digit from 1 to 9, then 1 to 14 digits,
  and nothing else.
\<close>

definition stripSeparators :: "jsstring \<Rightarrow> jsstring" where
  "stripSeparators s = filter (\<lambda>c. \<not> (isWhiteSpace c \<or> c \<in> set (js ''-()''))) s"

definition phoneRegex :: "jsstring \<Rightarrow> bool" where
  "phoneRegex s =
     (case (if startsWith s (js ''+'') then drop 1 s else s) of
        [] \<Rightarrow> False
      | d # ds \<Rightarrow> 49 \<le> d \<and> d \<le> 57 \<and> 1 \<le> length ds \<and> length ds \<le> 14 \<and> list_all isDigit ds)"

text \<open>
  The lead object of lines 321 to 331. Its \<^verbatim>\<open>customFields\<close> (the columns that are none
  of the aliases, copied as they are) are left out: no property below reads them.
\<close>

record lead =
  firstName :: jsstring
  lastName :: jsstring
  phone :: jsstring
  email :: "jsstring option"
  company :: "jsstring option"
  title :: "jsstring option"
  status :: jsstring
  callAttempts :: nat

text \<open>
  The handler of a row, for line number \<open>n\<close>: the message it pushes on \<^verbatim>\<open>errors\<close>
  (\<open>Inl\<close>) or the lead it pushes on \<^verbatim>\<open>leads\<close> (\<open>Inr\<close>). \<^verbatim>\<open>!v\<close> holds of
  \<^verbatim>\<open>undefined\<close> and of the empty string. \<^verbatim>\<open>lastName.trim()\<close> throws a TypeError when
  \<^verbatim>\<open>lastName\<close> is \<^verbatim>\<open>undefined\<close>; the handler's \<^verbatim>\<open>catch\<close> pushes the error's message,
  whose text is the engine's and is the parameter \<open>typeError\<close>.
  \<^verbatim>\<open>(a || b)?.trim()\<close> is \<^verbatim>\<open>undefined\<close> when \<^verbatim>\<open>a || b\<close> is.
\<close>

definition lineMessage :: "nat \<Rightarrow> jsstring \<Rightarrow> jsstring" where
  "lineMessage n msg = js ''Line '' @ decimal n @ js '': '' @ msg"

definition parseRow :: "jsstring \<Rightarrow> nat \<Rightarrow> row \<Rightarrow> jsstring + lead" where
  "parseRow typeError n r =
     (case (fst (resolveNames r), phoneField r) of
        (Some fn, Some pf) \<Rightarrow>
          if fn = [] \<or> pf = [] then
            Inl (lineMessage n (js ''Missing required fields (name and phone)''))
          else
            let cleanPhone = stripSeparators pf in
            if \<not> phoneRegex cleanPhone then
              Inl (lineMessage n (js ''Invalid phone number format''))
            else
              (case snd (resolveNames r) of
                 None \<Rightarrow> Inl (lineMessage n typeError)
               | Some ln \<Rightarrow>
                   Inr \<lparr>firstName = trim fn,
                        lastName = trim ln,
                        phone = formatPhoneNumber cleanPhone,
                        email = map_option trim (js_or (r (js ''email'')) (r (js ''Email''))),
                        company = map_option trim (js_or (r (js ''company'')) (r (js ''Company''))),
                        title = map_option trim
                          (js_or (js_or (js_or (r (js ''title'')) (r (js ''Title'')))
                             (r (js ''job_title''))) (r (js ''JobTitle''))),
                        status = js ''pending'',
                        callAttempts = 0\<rparr>)
      | _ \<Rightarrow> Inl (lineMessage n (js ''Missing required fields (name and phone)'')))"

text \<open>
  The variables the handler closes over, and the handler: \<^verbatim>\<open>lineNumber++\<close>, then one
  push on \<^verbatim>\<open>errors\<close> or on \<^verbatim>\<open>leads\<close>.
\<close>

record upload_state =
  leads :: "lead list"
  errors :: "jsstring list"
  lineNumber :: nat

definition onData :: "jsstring \<Rightarrow> upload_state \<Rightarrow> row \<Rightarrow> upload_state" where
  "onData typeError st r =
     (let n = lineNumber st + 1 in
      case parseRow typeError n r of
        Inl msg \<Rightarrow> st\<lparr>errors := errors st @ [msg], lineNumber := n\<rparr>
      | Inr l \<Rightarrow> st\<lparr>leads := leads st @ [l], lineNumber := n\<rparr>)"

definition readRows :: "jsstring \<Rightarrow> row list \<Rightarrow> upload_state" where
  "readRows typeError rows =
     foldl (onData typeError) \<lparr>leads = [], errors = [], lineNumber = 0\<rparr> rows"

subsection \<open>The upsert (lines 347 to 397)\<close>

text \<open>
  A row of the \<^verbatim>\<open>leads\<close> table, in the columns the upload writes. The timestamps and
  \<^verbatim>\<open>custom_fields\<close> are left out.
\<close>

record lead_row =
  organization_id :: jsstring
  campaign_id :: jsstring
  first_name :: jsstring
  last_name :: jsstring
  phone :: jsstring
  email :: "jsstring option"
  company :: "jsstring option"
  job_title :: "jsstring option"
  status :: jsstring
  call_status :: jsstring
  call_attempts :: nat

text \<open>The object built for each lead inside \<^verbatim>\<open>leads.map\<close> (lines 355 to 370).\<close>

definition upsertPayload :: "jsstring \<Rightarrow> jsstring \<Rightarrow> lead \<Rightarrow> lead_row" where
  "upsertPayload organizationId campaignId l =
     \<lparr>organization_id = organizationId,
      campaign_id = campaignId,
      first_name = firstName l,
      last_name = lastName l,
      phone = lead.phone l,
      email = lead.email l,
      company = lead.company l,
      job_title = title l,
      status = js ''pending'',
      call_status = js ''pending'',
      call_attempts = 0\<rparr>"

text \<open>
  Modelled from the spec: the storage service behind \<^verbatim>\<open>supabaseService\<close>
  (\<^verbatim>\<open>services/supabase-client\<close> and the hosted database, neither among the sources). The
  spec has the upload upsert into storage keyed on the organization and the phone; the code
  chooses that behaviour through the two options of \<^verbatim>\<open>upsert\<close>. \<open>onConflict\<close> lists the
  conflict columns (the code passes \<^verbatim>\<open>'organization_id,phone'\<close>), here as the columns'
  selectors. A row of the payload whose conflict columns equal those of a stored row
  replaces that row's written columns when \<open>ignoreDuplicates\<close> is false and is skipped
  when it is true; any other row is inserted; the rows written are returned
  (\<^verbatim>\<open>.select()\<close>). With \<open>ignoreDuplicates\<close> false the database refuses a payload that
  holds two rows with the same conflict columns
  (\<^verbatim>\<open>ON CONFLICT DO UPDATE command cannot affect row a second time\<close>), and the call
  returns an error. \<open>upsertTable\<close> is the table after one row is written, \<open>upsertRow\<close>
  one row of the payload, on the rows written so far and the table.
\<close>

record upsert_options =
  onConflict :: "(lead_row \<Rightarrow> jsstring) list"
  ignoreDuplicates :: bool

definition conflict_key :: "upsert_options \<Rightarrow> lead_row \<Rightarrow> jsstring list" where
  "conflict_key opts r = map (\<lambda>col. col r) (onConflict opts)"

definition upsertTable :: "upsert_options \<Rightarrow> lead_row list \<Rightarrow> lead_row \<Rightarrow> lead_row list" where
  "upsertTable opts tbl r =
     (if conflict_key opts r \<in> set (map (conflict_key opts) tbl)
      then map (\<lambda>old. if conflict_key opts old = conflict_key opts r then r else old) tbl
      else tbl @ [r])"

definition upsertRow ::
  "upsert_options \<Rightarrow> lead_row list \<times> lead_row list \<Rightarrow> lead_row \<Rightarrow> lead_row list \<times> lead_row list"
where
  "upsertRow opts acc r =
     (case acc of (written, tbl) \<Rightarrow>
        if ignoreDuplicates opts \<and> conflict_key opts r \<in> set (map (conflict_key opts) tbl)
        then (written, tbl)
        else (written @ [r], upsertTable opts tbl r))"

definition db_upsert ::
  "upsert_options \<Rightarrow> lead_row list \<Rightarrow> lead_row list \<Rightarrow> jsstring + lead_row list \<times> lead_row list"
where
  "db_upsert opts payload tbl =
     (if \<not> ignoreDuplicates opts \<and> \<not> distinct (map (conflict_key opts) payload) then
        Inl (js ''ON CONFLICT DO UPDATE command cannot affect row a second time'')
      else Inr (foldl (upsertRow opts) ([], tbl) payload))"

text \<open>
  What the promise of \<^verbatim>\<open>uploadLeadsFromCSV\<close> settles with: resolved with the summary
  (\<open>Inr\<close>) or rejected with an error (\<open>Inl\<close>).
\<close>

record upload_summary =
  success :: nat
  failed :: nat
  errors :: "jsstring list"

text \<open>The options of lines 371 to 374.\<close>

definition uploadOptions :: upsert_options where
  "uploadOptions = \<lparr>onConflict = [organization_id, lead_row.phone], ignoreDuplicates = False\<rparr>"

text \<open>
  \<^verbatim>\<open>uploadLeadsFromCSV\<close>, from the rows \<^verbatim>\<open>csv-parser\<close> emits for \<^verbatim>\<open>csvData\<close> and the
  \<^verbatim>\<open>leads\<close> table: the promise's outcome and the table afterwards.
  \<^verbatim>\<open>updateCampaignMetrics\<close> catches its own errors and writes to \<^verbatim>\<open>campaigns\<close> only.
\<close>

definition uploadLeadsFromCSV ::
  "jsstring \<Rightarrow> jsstring \<Rightarrow> jsstring \<Rightarrow> row list \<Rightarrow> lead_row list
     \<Rightarrow> (jsstring + upload_summary) \<times> lead_row list"
where
  "uploadLeadsFromCSV typeError organizationId campaignId rows tbl =
     (let st = readRows typeError rows in
      case db_upsert uploadOptions
             (map (upsertPayload organizationId campaignId) (leads st)) tbl of
        Inl msg \<Rightarrow> (Inl (js ''Failed to insert leads: '' @ msg), tbl)
      | Inr (insertedLeads, tbl') \<Rightarrow>
          (Inr \<lparr>success = length insertedLeads,
                failed = length (upload_state.errors st),
                errors = upload_state.errors st\<rparr>,
           tbl'))"

section \<open>Campaign call processing\<close>

text \<open>
  The rows the call loop reads and writes, in the columns it uses. \<open>id'\<close> is the
  column \<^verbatim>\<open>id\<close>.
\<close>

record db_lead =
  id' :: jsstring
  campaign_id :: "jsstring option"
  call_status :: jsstring
  first_name :: jsstring
  last_name :: jsstring
  phone :: jsstring
  email :: "jsstring option"

record campaign_row =
  id' :: jsstring
  assistant_id :: jsstring
  phone_number_id :: "jsstring option"

record call_row =
  organization_id :: jsstring
  campaign_id :: jsstring
  lead_id :: jsstring
  vapi_call_id :: jsstring
  direction :: jsstring
  phone_number :: jsstring
  status :: jsstring
  cost :: nat

record db =
  leads_table :: "db_lead list"
  campaigns_table :: "campaign_row list"
  calls_table :: "call_row list"

record customer =
  number :: jsstring
  name :: jsstring
  email :: "jsstring option"

record call_request =
  assistantId :: jsstring
  phoneNumberId :: "jsstring option"
  customer :: customer

record call_result =
  leadId :: jsstring
  vapiCallId :: jsstring
  status :: jsstring

text \<open>
  What \<^verbatim>\<open>makeCall\<close> depends on outside the repository, as parameters: the calling API
  (\<^verbatim>\<open>this.vapiService\<close>, \<^verbatim>\<open>null\<close> without credentials; \<^verbatim>\<open>createCall\<close> gives the id of
  the call or throws, \<open>None\<close>), whether the database accepts the insert into
  \<^verbatim>\<open>calls\<close>, the reading of \<^verbatim>\<open>Date.now()\<close> when a lead is called, and whether the
  mock simulation (\<^verbatim>\<open>MockWebhookService.simulateCallProgression\<close>) returns or throws.
\<close>

record services =
  vapiService :: "(call_request \<Rightarrow> jsstring option) option"
  insertCall :: "call_row \<Rightarrow> bool"
  now :: "db_lead \<Rightarrow> nat"
  simulateCallProgression :: "jsstring \<Rightarrow> bool"

datatype call_error = CreateCallFailed | RecordCallFailed | SimulationFailed

text \<open>\<^verbatim>\<open>from('leads').update({call_status: s}).eq('id', i)\<close>\<close>

definition updateCallStatus :: "jsstring \<Rightarrow> jsstring \<Rightarrow> db \<Rightarrow> db" where
  "updateCallStatus i s d =
     d\<lparr>leads_table :=
         map (\<lambda>l. if db_lead.id' l = i then l\<lparr>db_lead.call_status := s\<rparr> else l) (leads_table d)\<rparr>"

text \<open>
  The parts of \<^verbatim>\<open>makeCall\<close> (lines 742 to 842): the request sent to the calling API
  (lines 746 to 763); the call it gives, or the mock call made without credentials (lines
  767 to 779); the row inserted into \<^verbatim>\<open>calls\<close> (lines 784 to 794); and the test before
  the mock simulation (line 815).
\<close>

definition callRequestOf :: "db_lead \<Rightarrow> jsstring \<Rightarrow> jsstring option \<Rightarrow> call_request" where
  "callRequestOf l assistant phoneNumber =
     (let formattedPhone = formatPhoneNumber (db_lead.phone l);
          vapiPhoneNumber =
            (if startsWith formattedPhone (js ''+'') then formattedPhone
             else js ''+'' @ formattedPhone)
      in \<lparr>assistantId = assistant,
          phoneNumberId = phoneNumber,
          customer =
            \<lparr>number = vapiPhoneNumber,
             name = trim (db_lead.first_name l @ js '' '' @ db_lead.last_name l),
             email = js_or (db_lead.email l) None\<rparr>\<rparr>)"

definition createVapiCall :: "services \<Rightarrow> call_request \<Rightarrow> db_lead \<Rightarrow> jsstring option" where
  "createVapiCall sv callRequest l =
     (case vapiService sv of
        Some createCall \<Rightarrow> createCall callRequest
      | None \<Rightarrow> Some (js ''mock-call-'' @ decimal (now sv l)))"

definition callRecordOf :: "jsstring \<Rightarrow> jsstring \<Rightarrow> db_lead \<Rightarrow> jsstring \<Rightarrow> call_row" where
  "callRecordOf organizationId campaignId l callId =
     \<lparr>organization_id = organizationId,
      campaign_id = campaignId,
      lead_id = db_lead.id' l,
      vapi_call_id = callId,
      direction = js ''outbound'',
      phone_number = formatPhoneNumber (db_lead.phone l),
      status = js ''initiated'',
      cost = 0\<rparr>"

definition isMockCall :: "services \<Rightarrow> jsstring \<Rightarrow> bool" where
  "isMockCall sv callId =
     (case vapiService sv of
        None \<Rightarrow> startsWith callId (js ''mock-call-'')
      | Some _ \<Rightarrow> False)"

text \<open>
  \<^verbatim>\<open>makeCall\<close>: the value it returns (\<open>Inr\<close>) or the error it throws (\<open>Inl\<close>), and
  the database afterwards. Every error inside its \<^verbatim>\<open>try\<close> marks the lead \<^verbatim>\<open>failed\<close>
  and is thrown again.
\<close>

definition makeCall ::
  "services \<Rightarrow> jsstring \<Rightarrow> jsstring \<Rightarrow> db_lead \<Rightarrow> jsstring \<Rightarrow> jsstring option \<Rightarrow> db
     \<Rightarrow> (call_error + call_result) \<times> db"
where
  "makeCall sv organizationId campaignId l assistant phoneNumber d =
     (case createVapiCall sv (callRequestOf l assistant phoneNumber) l of
        None \<Rightarrow> (Inl CreateCallFailed, updateCallStatus (db_lead.id' l) (js ''failed'') d)
      | Some callId \<Rightarrow>
          if \<not> insertCall sv (callRecordOf organizationId campaignId l callId) then
            (Inl RecordCallFailed, updateCallStatus (db_lead.id' l) (js ''failed'') d)
          else
            let d1 = updateCallStatus (db_lead.id' l) (js ''calling'')
                       (d\<lparr>calls_table :=
                            calls_table d @ [callRecordOf organizationId campaignId l callId]\<rparr>)
            in
            if isMockCall sv callId \<and> \<not> simulateCallProgression sv callId then
              (Inl SimulationFailed, updateCallStatus (db_lead.id' l) (js ''failed'') d1)
            else
              (Inr \<lparr>leadId = db_lead.id' l, vapiCallId = callId, status = js ''pending''\<rparr>,
               d1))"

text \<open>
  What \<^verbatim>\<open>processCampaignCalls\<close> does that can be observed: the calls of \<^verbatim>\<open>makeCall\<close>,
  the waits (\<^verbatim>\<open>setTimeout\<close>, in milliseconds) and the failures logged by the loop's
  \<^verbatim>\<open>catch\<close>.
\<close>

datatype event =
  CallAttempt db_lead jsstring "jsstring option"
| Wait nat
| CallFailureLogged jsstring

text \<open>
  The loop of lines 664 to 674. The wait stands inside the \<^verbatim>\<open>try\<close>, after the
  \<^verbatim>\<open>await\<close> of \<^verbatim>\<open>makeCall\<close>: an error thrown by \<^verbatim>\<open>makeCall\<close> skips it.
\<close>

fun callLoop ::
  "services \<Rightarrow> jsstring \<Rightarrow> jsstring \<Rightarrow> campaign_row \<Rightarrow> db_lead list \<Rightarrow> db \<Rightarrow> event list \<times> db"
where
  "callLoop sv organizationId campaignId campaign [] d = ([], d)"
| "callLoop sv organizationId campaignId campaign (l # rest) d =
     (case makeCall sv organizationId campaignId l (assistant_id campaign)
             (phone_number_id campaign) d of
        (Inr res, d1) \<Rightarrow>
          (case callLoop sv organizationId campaignId campaign rest d1 of
             (tr, d2) \<Rightarrow>
               (CallAttempt l (assistant_id campaign) (phone_number_id campaign)
                  # Wait 2000 # tr, d2))
      | (Inl err, d1) \<Rightarrow>
          (case callLoop sv organizationId campaignId campaign rest d1 of
             (tr, d2) \<Rightarrow>
               (CallAttempt l (assistant_id campaign) (phone_number_id campaign)
                  # CallFailureLogged (db_lead.id' l) # tr, d2)))"

text \<open>
  The two queries: the leads of the campaign with \<^verbatim>\<open>call_status\<close> \<^verbatim>\<open>pending\<close>,
  \<^verbatim>\<open>limit(5)\<close>; and the campaign by its id, \<^verbatim>\<open>single()\<close>, which gives no row unless
  exactly one matches.
\<close>

definition fetchPendingLeads :: "jsstring \<Rightarrow> db \<Rightarrow> db_lead list" where
  "fetchPendingLeads campaignId d =
     take 5 (filter (\<lambda>l. db_lead.campaign_id l = Some campaignId \<and>
                          db_lead.call_status l = js ''pending'') (leads_table d))"

definition fetchCampaign :: "jsstring \<Rightarrow> db \<Rightarrow> campaign_row option" where
  "fetchCampaign campaignId d =
     (case filter (\<lambda>c. campaign_row.id' c = campaignId) (campaigns_table d) of
        [c] \<Rightarrow> Some c
      | _ \<Rightarrow> None)"

text \<open>
  \<^verbatim>\<open>processCampaignCalls\<close> (lines 629 to 681). Without pending leads it returns; without
  the campaign it throws \<^verbatim>\<open>Campaign not found\<close> into its own outer \<^verbatim>\<open>catch\<close>, before
  the loop.
\<close>

definition processCampaignCalls ::
  "services \<Rightarrow> jsstring \<Rightarrow> jsstring \<Rightarrow> db \<Rightarrow> event list \<times> db"
where
  "processCampaignCalls sv organizationId campaignId d =
     (let fetched = fetchPendingLeads campaignId d in
      if fetched = [] then ([], d)
      else
        (case fetchCampaign campaignId d of
           None \<Rightarrow> ([], d)
         | Some campaign \<Rightarrow> callLoop sv organizationId campaignId campaign fetched d))"

section \<open>The claims' words, as definitions\<close>

text \<open>
  The text of a string before its first space, and everything after that space (empty
  when there is none).
\<close>

definition beforeFirstSpace :: "jsstring \<Rightarrow> jsstring" where
  "beforeFirstSpace s = takeWhile (\<lambda>c. c \<noteq> SP) s"

definition afterFirstSpace :: "jsstring \<Rightarrow> jsstring" where
  "afterFirstSpace s = drop 1 (dropWhile (\<lambda>c. c \<noteq> SP) s)"

text \<open>
  The first of a list of column names, in order, under which the row holds a value that is
  present and not empty.
\<close>

fun firstPresent :: "row \<Rightarrow> jsstring list \<Rightarrow> jsstring option" where
  "firstPresent r [] = None"
| "firstPresent r (k # ks) = (if truthy (r k) then r k else firstPresent r ks)"

definition phoneAliases :: "jsstring list" where
  "phoneAliases =
     [js ''phone'', js ''number'', js ''telephone'', js ''phoneNumber'', js ''Phone'',
      js ''Number'']"

definition firstAndLastNameAliases :: "jsstring list" where
  "firstAndLastNameAliases =
     [js ''firstName'', js ''first_name'', js ''FirstName'', js ''firstname'',
      js ''lastName'', js ''last_name'', js ''LastName'', js ''lastname'']"

text \<open>
  The outcomes of the rows of a batch in order, the first row handled as line \<open>n + 1\<close>;
  the messages among them, and the leads among them.
\<close>

fun rowOutcomes :: "jsstring \<Rightarrow> nat \<Rightarrow> row list \<Rightarrow> (jsstring + lead) list" where
  "rowOutcomes typeError n [] = []"
| "rowOutcomes typeError n (r # rs) = parseRow typeError (Suc n) r # rowOutcomes typeError (Suc n) rs"

fun messagesOf :: "(jsstring + lead) list \<Rightarrow> jsstring list" where
  "messagesOf [] = []"
| "messagesOf (Inl m # xs) = m # messagesOf xs"
| "messagesOf (Inr l # xs) = messagesOf xs"

fun leadsOf :: "(jsstring + lead) list \<Rightarrow> lead list" where
  "leadsOf [] = []"
| "leadsOf (Inl m # xs) = leadsOf xs"
| "leadsOf (Inr l # xs) = l # leadsOf xs"

text \<open>
  Whether \<^verbatim>\<open>makeCall\<close> returns for a lead; what the loop does for one lead (the call,
  then the wait of 2000 milliseconds when the call returned, or the logged failure when it
  threw); the leads called in a list of events, in order; each lead called with the event
  that comes right after its call; and the ids of the leads whose failure was logged.
\<close>

definition callReturns ::
  "services \<Rightarrow> jsstring \<Rightarrow> jsstring \<Rightarrow> campaign_row \<Rightarrow> db \<Rightarrow> db_lead \<Rightarrow> bool" where
  "callReturns sv organizationId campaignId campaign d l =
     (case fst (makeCall sv organizationId campaignId l (assistant_id campaign)
                  (phone_number_id campaign) d) of
        Inr _ \<Rightarrow> True
      | Inl _ \<Rightarrow> False)"

definition leadEvents ::
  "services \<Rightarrow> jsstring \<Rightarrow> jsstring \<Rightarrow> campaign_row \<Rightarrow> db \<Rightarrow> db_lead \<Rightarrow> event list" where
  "leadEvents sv organizationId campaignId campaign d l =
     CallAttempt l (assistant_id campaign) (phone_number_id campaign)
       # (if callReturns sv organizationId campaignId campaign d l then [Wait 2000]
          else [CallFailureLogged (db_lead.id' l)])"

fun attempts :: "event list \<Rightarrow> db_lead list" where
  "attempts [] = []"
| "attempts (CallAttempt l a p # es) = l # attempts es"
| "attempts (Wait n # es) = attempts es"
| "attempts (CallFailureLogged i # es) = attempts es"



section \<open>Example inputs\<close>

text \<open>
  The row of the line \<^verbatim>\<open>John  Smith,+1 (415) 555-2671\<close> under the header
  \<^verbatim>\<open>name,phone\<close>, and the row of the line \<^verbatim>\<open>John,+14155552671\<close> under the header
  \<^verbatim>\<open>firstName,phone\<close>.
\<close>

definition doubleSpaceRow :: row where
  "doubleSpaceRow = [js ''name'' \<mapsto> js ''John  Smith'', js ''phone'' \<mapsto> js ''+1 (415) 555-2671'']"

definition firstNameOnlyRow :: row where
  "firstNameOnlyRow = [js ''firstName'' \<mapsto> js ''John'', js ''phone'' \<mapsto> js ''+14155552671'']"









text \<open>
  Two pending leads of a campaign, the campaign, a database that holds them, a database
  that holds the first lead and no campaign, and a calling API that throws for the first
  lead's number and places the call for any other.
\<close>

definition lead1 :: db_lead where
  "lead1 =
     \<lparr>db_lead.id' = js ''lead-1'', db_lead.campaign_id = Some (js ''campaign-1''),
      db_lead.call_status = js ''pending'', db_lead.first_name = js ''Ann'',
      db_lead.last_name = js ''Lee'', db_lead.phone = js ''+14155552671'',
      db_lead.email = None\<rparr>"

definition lead2 :: db_lead where
  "lead2 =
     \<lparr>db_lead.id' = js ''lead-2'', db_lead.campaign_id = Some (js ''campaign-1''),
      db_lead.call_status = js ''pending'', db_lead.first_name = js ''Bob'',
      db_lead.last_name = js ''Ray'', db_lead.phone = js ''+14155552672'',
      db_lead.email = None\<rparr>"

definition campaign1 :: campaign_row where
  "campaign1 =
     \<lparr>campaign_row.id' = js ''campaign-1'', assistant_id = js ''assistant-1'',
      phone_number_id = None\<rparr>"

definition exampleDb :: db where
  "exampleDb = \<lparr>leads_table = [lead1, lead2], campaigns_table = [campaign1], calls_table = []\<rparr>"

definition dbWithoutCampaign :: db where
  "dbWithoutCampaign = \<lparr>leads_table = [lead1], campaigns_table = [], calls_table = []\<rparr>"

definition flakyApi :: services where
  "flakyApi =
     \<lparr>vapiService =
        Some (\<lambda>request. if number (customer request) = js ''+14155552671'' then None
                        else Some (js ''call-2'')),
      insertCall = (\<lambda>_. True),
      now = (\<lambda>_. 0),
      simulateCallProgression = (\<lambda>_. True)\<rparr>"

section \<open>Properties of the normalisation\<close>

lemma js_simps: "js [] = []" "js (x # xs) = of_char x # js xs"
  by (simp_all add: js_def)

lemma cleaned_nonempty_input: "cleaned p \<noteq> [] \<Longrightarrow> p \<noteq> []"
  by (auto simp: cleaned_def)

lemma countryCodeBranch_ge10:
  "10 \<le> length c \<Longrightarrow> countryCodeBranch c = Some (js ''+'' @ c)"
  by (simp add: countryCodeBranch_def)

lemma countryCodeBranch_lt10:
  "length c < 10 \<Longrightarrow> countryCodeBranch c = None"
  by (simp add: countryCodeBranch_def)

lemma format_ge10:
  assumes "10 \<le> length (cleaned p)"
  shows "formatPhoneNumber p = js ''+'' @ cleaned p"
proof -
  from assms have "cleaned p \<noteq> []" by auto
  then have "p \<noteq> []" by (rule cleaned_nonempty_input)
  with assms show ?thesis
    by (simp add: formatPhoneNumber_def countryCodeBranch_ge10)
qed

lemma isDigit_cleaned: "x \<in> set (cleaned p) \<Longrightarrow> isDigit x"
  by (simp add: cleaned_def)

lemma cleaned_digits_only: "list_all isDigit s \<Longrightarrow> cleaned s = s"
  by (induction s) (simp_all add: cleaned_def)

lemma cleaned_idem: "cleaned (cleaned p) = cleaned p"
  by (simp add: cleaned_def)

lemma cleaned_append: "cleaned (a @ b) = cleaned a @ cleaned b"
  by (simp add: cleaned_def)

lemma cleaned_plus: "cleaned (js ''+'') = []"
  by (simp add: cleaned_def js_simps isDigit_def)

lemma cleaned_plus356: "cleaned (js ''+356'') = js ''356''"
  by (simp add: cleaned_def js_simps isDigit_def)

lemma not_startsWith_plus: "\<not> startsWith (cleaned p) (js ''+'')"
proof
  assume a: "startsWith (cleaned p) (js ''+'')"
  then have "cleaned p \<noteq> []"
    by (auto simp: startsWith_def js_simps)
  then obtain x xs where c: "cleaned p = x # xs"
    by (cases "cleaned p") auto
  with a have "x = of_char CHR ''+''"
    by (simp add: startsWith_def js_simps)
  moreover have "isDigit x"
    by (rule isDigit_cleaned [of x p]) (simp add: c)
  ultimately show False
    by (simp add: isDigit_def)
qed

lemma maltaBranch_Some:
  "length c = 8 \<Longrightarrow> startsWith c (js ''9'') \<or> startsWith c (js ''7'') \<Longrightarrow>
   maltaBranch c = Some (js ''+356'' @ c)"
  by (simp add: maltaBranch_def)

lemma format_malta:
  assumes "length (cleaned p) = 8"
    and "startsWith (cleaned p) (js ''9'') \<or> startsWith (cleaned p) (js ''7'')"
  shows "formatPhoneNumber p = js ''+356'' @ cleaned p"
proof -
  from assms(1) have "cleaned p \<noteq> []" by auto
  then have "p \<noteq> []" by (rule cleaned_nonempty_input)
  moreover from assms(1) have "countryCodeBranch (cleaned p) = None"
    by (simp add: countryCodeBranch_lt10)
  ultimately show ?thesis
    using assms by (simp add: formatPhoneNumber_def maltaBranch_Some)
qed

lemma format_residual:
  assumes "p \<noteq> []" and "length (cleaned p) < 10"
    and "maltaBranch (cleaned p) = None"
  shows "formatPhoneNumber p = js ''+'' @ cleaned p"
  using assms
  by (simp add: formatPhoneNumber_def countryCodeBranch_lt10 not_startsWith_plus)

text \<open>The function's result, branch by branch, with the unreachable branches gone.\<close>

lemma format_cases:
  "formatPhoneNumber p =
    (if p = [] then []
     else if 10 \<le> length (cleaned p) then js ''+'' @ cleaned p
     else if length (cleaned p) = 8 \<and>
        (startsWith (cleaned p) (js ''9'') \<or> startsWith (cleaned p) (js ''7''))
       then js ''+356'' @ cleaned p
     else js ''+'' @ cleaned p)"
proof (cases "p = []")
  case True
  then show ?thesis by (simp add: formatPhoneNumber_def)
next
  case ne: False
  show ?thesis
  proof (cases "10 \<le> length (cleaned p)")
    case True
    with ne show ?thesis by (simp add: format_ge10)
  next
    case short: False
    show ?thesis
    proof (cases "maltaBranch (cleaned p)")
      case None
      with ne short have "formatPhoneNumber p = js ''+'' @ cleaned p"
        by (simp add: format_residual)
      moreover from None have "\<not> (length (cleaned p) = 8 \<and>
        (startsWith (cleaned p) (js ''9'') \<or> startsWith (cleaned p) (js ''7'')))"
        by (auto simp: maltaBranch_def split: if_splits)
      ultimately show ?thesis using ne short by auto
    next
      case (Some r)
      then have m: "length (cleaned p) = 8 \<and>
        (startsWith (cleaned p) (js ''9'') \<or> startsWith (cleaned p) (js ''7''))"
        by (auto simp: maltaBranch_def split: if_splits)
      then have "formatPhoneNumber p = js ''+356'' @ cleaned p"
        by (simp add: format_malta)
      with ne short m show ?thesis by simp
    qed
  qed
qed

lemma format_idem:
  "formatPhoneNumber (formatPhoneNumber x) = formatPhoneNumber x"
proof (cases "x = []")
  case True
  then show ?thesis by (simp add: formatPhoneNumber_def)
next
  case ne: False
  let ?c = "cleaned x"
  show ?thesis
  proof (cases "10 \<le> length ?c")
    case True
    then have r: "formatPhoneNumber x = js ''+'' @ ?c" by (rule format_ge10)
    have "cleaned (js ''+'' @ ?c) = ?c"
      by (simp add: cleaned_append cleaned_plus cleaned_idem)
    with True have "formatPhoneNumber (js ''+'' @ ?c) = js ''+'' @ ?c"
      by (simp add: format_ge10)
    with r show ?thesis by simp
  next
    case short: False
    show ?thesis
    proof (cases "length ?c = 8 \<and> (startsWith ?c (js ''9'') \<or> startsWith ?c (js ''7''))")
      case True
      then have r: "formatPhoneNumber x = js ''+356'' @ ?c" by (simp add: format_malta)
      have c: "cleaned (js ''+356'' @ ?c) = js ''356'' @ ?c"
        by (simp add: cleaned_append cleaned_plus356 cleaned_idem)
      with True have "10 \<le> length (cleaned (js ''+356'' @ ?c))"
        by (simp add: js_simps)
      then have "formatPhoneNumber (js ''+356'' @ ?c) = js ''+'' @ cleaned (js ''+356'' @ ?c)"
        by (rule format_ge10)
      with c r show ?thesis by (simp add: js_simps)
    next
      case False
      with ne short have r: "formatPhoneNumber x = js ''+'' @ ?c"
        by (auto simp: format_cases)
      have c: "cleaned (js ''+'' @ ?c) = ?c"
        by (simp add: cleaned_append cleaned_plus cleaned_idem)
      have "js ''+'' @ ?c \<noteq> []" by (simp add: js_simps)
      with c short False have "formatPhoneNumber (js ''+'' @ ?c) = js ''+'' @ ?c"
        by (auto simp: format_cases)
      with r show ?thesis by simp
    qed
  qed
qed

subsection \<open>The claims about \<open>formatPhoneNumber\<close>\<close>

text \<open>
  C1. The claim: an input whose cleaned digit string has exactly 11 digits and starts with
  \<^verbatim>\<open>0\<close> is returned as \<^verbatim>\<open>+44\<close> followed by the remaining 10 digits. The branch
  that would do so (lines 730 to 733) stands after the block for 10 digits and more, whose
  last branch returns for every such string. At \<^verbatim>\<open>07911123456\<close> the function returns
  \<^verbatim>\<open>+07911123456\<close>, not \<^verbatim>\<open>+447911123456\<close>.
\<close>

theorem uk_national_branch_unreachable:
  "formatPhoneNumber (js ''07911123456'') = js ''+07911123456'' \<and>
   length (cleaned (js ''07911123456'')) = 11 \<and>
   startsWith (cleaned (js ''07911123456'')) (js ''0'') \<and>
   formatPhoneNumber (js ''07911123456'') \<noteq> js ''+44'' @ drop 1 (cleaned (js ''07911123456''))"
  by (simp add: format_cases cleaned_def startsWith_def js_simps isDigit_def)

text \<open>
  C2. The claim: an input whose cleaned digit string has exactly 10 digits and none of the
  country-code shapes is returned as \<^verbatim>\<open>+44\<close> followed by those digits. The branch that
  would do so (lines 727 to 729) is unreachable for the same reason. At \<^verbatim>\<open>7911123456\<close>
  (which starts with none of \<^verbatim>\<open>1\<close>, \<^verbatim>\<open>44\<close>, \<^verbatim>\<open>356\<close>, \<^verbatim>\<open>39\<close>, \<^verbatim>\<open>33\<close>, \<^verbatim>\<open>49\<close>)
  the function returns \<^verbatim>\<open>+7911123456\<close>, not \<^verbatim>\<open>+447911123456\<close>.
\<close>

theorem uk_ten_digit_branch_unreachable:
  "formatPhoneNumber (js ''7911123456'') = js ''+7911123456'' \<and>
   length (cleaned (js ''7911123456'')) = 10 \<and>
   \<not> startsWith (cleaned (js ''7911123456'')) (js ''1'') \<and>
   \<not> startsWith (cleaned (js ''7911123456'')) (js ''44'') \<and>
   \<not> startsWith (cleaned (js ''7911123456'')) (js ''356'') \<and>
   \<not> startsWith (cleaned (js ''7911123456'')) (js ''39'') \<and>
   \<not> startsWith (cleaned (js ''7911123456'')) (js ''33'') \<and>
   \<not> startsWith (cleaned (js ''7911123456'')) (js ''49'') \<and>
   formatPhoneNumber (js ''7911123456'') \<noteq> js ''+44'' @ cleaned (js ''7911123456'')"
  by (simp add: format_cases cleaned_def startsWith_def js_simps isDigit_def)

text \<open>
  C3. For every input whose cleaned digit string has at least 10 digits, whatever its
  leading digits, \<open>formatPhoneNumber\<close> returns \<^verbatim>\<open>+\<close> followed by the cleaned digit
  string unchanged.
\<close>

theorem ten_or_more_digits_plus_prefixed:
  "10 \<le> length (cleaned p) \<Longrightarrow> formatPhoneNumber p = js ''+'' @ cleaned p"
  by (rule format_ge10)

theorem ten_or_more_digits_plus_prefixed_witness:
  "10 \<le> length (cleaned (js ''(356) 2123-4567'')) \<and>
   formatPhoneNumber (js ''(356) 2123-4567'') = js ''+35621234567''"
  using ten_or_more_digits_plus_prefixed [of "js ''(356) 2123-4567''"]
  by (simp add: cleaned_def js_simps isDigit_def)

text \<open>
  C4. For every input whose cleaned digit string has exactly 8 digits and starts with
  \<^verbatim>\<open>9\<close> or \<^verbatim>\<open>7\<close>, \<open>formatPhoneNumber\<close> returns \<^verbatim>\<open>+356\<close> followed by those 8
  digits.
\<close>

theorem malta_mobile_prefixed:
  "length (cleaned p) = 8 \<Longrightarrow>
   startsWith (cleaned p) (js ''9'') \<or> startsWith (cleaned p) (js ''7'') \<Longrightarrow>
   formatPhoneNumber p = js ''+356'' @ cleaned p"
  by (rule format_malta)

theorem malta_mobile_prefixed_witness:
  "length (cleaned (js ''7912 3456'')) = 8 \<and>
   (startsWith (cleaned (js ''7912 3456'')) (js ''9'') \<or>
    startsWith (cleaned (js ''7912 3456'')) (js ''7'')) \<and>
   formatPhoneNumber (js ''7912 3456'') = js ''+35679123456''"
  using malta_mobile_prefixed [of "js ''7912 3456''"]
  by (simp add: cleaned_def startsWith_def js_simps isDigit_def)

text \<open>
  C5. For every non-empty input, \<open>formatPhoneNumber\<close> returns a string that begins with
  \<^verbatim>\<open>+\<close>; in the residual case (fewer than 10 digits, and not 8 digits starting with
  \<^verbatim>\<open>9\<close> or \<^verbatim>\<open>7\<close>) it is \<^verbatim>\<open>+\<close> followed by the cleaned digit string; for the empty
  input it returns the empty string.
\<close>

theorem result_begins_with_plus:
  "(p \<noteq> [] \<longrightarrow> startsWith (formatPhoneNumber p) (js ''+'')) \<and>
   (p \<noteq> [] \<and> length (cleaned p) < 10 \<and>
      \<not> (length (cleaned p) = 8 \<and>
         (startsWith (cleaned p) (js ''9'') \<or> startsWith (cleaned p) (js ''7'')))
      \<longrightarrow> formatPhoneNumber p = js ''+'' @ cleaned p) \<and>
   formatPhoneNumber [] = []"
  by (auto simp: format_cases startsWith_def js_simps)

theorem result_begins_with_plus_witness:
  "js ''12-34'' \<noteq> [] \<and> length (cleaned (js ''12-34'')) < 10 \<and>
   \<not> (length (cleaned (js ''12-34'')) = 8 \<and>
      (startsWith (cleaned (js ''12-34'')) (js ''9'') \<or>
       startsWith (cleaned (js ''12-34'')) (js ''7''))) \<and>
   startsWith (formatPhoneNumber (js ''12-34'')) (js ''+'') \<and>
   formatPhoneNumber (js ''12-34'') = js ''+1234''"
  using result_begins_with_plus [of "js ''12-34''"]
  by (simp add: cleaned_def startsWith_def js_simps isDigit_def)

text \<open>
  C10. \<open>formatPhoneNumber\<close> is idempotent: applying it to its own result changes
  nothing.
\<close>

theorem formatPhoneNumber_idempotent:
  "formatPhoneNumber (formatPhoneNumber x) = formatPhoneNumber x"
  by (rule format_idem)

section \<open>Properties of the CSV ingestion\<close>

subsection \<open>Splitting a name at its first space\<close>

lemma split_on_nonempty: "split_on sep s \<noteq> []"
  by (induction s) (auto split: list.splits)

lemma split_on_no_sep: "sep \<notin> set s \<Longrightarrow> split_on sep s = [s]"
  by (induction s) auto

lemma split_on_first_sep:
  "sep \<notin> set a \<Longrightarrow> split_on sep (a @ sep # b) = a # split_on sep b"
  by (induction a) auto

lemma join_split_on: "join [sep] (split_on sep s) = s"
proof (induction s)
  case Nil
  show ?case by simp
next
  case (Cons c cs)
  obtain p ps where sp: "split_on sep cs = p # ps"
    using split_on_nonempty [of sep cs] by (cases "split_on sep cs") auto
  show ?case
  proof (cases "c = sep")
    case True
    with Cons sp show ?thesis by simp
  next
    case False
    with Cons sp show ?thesis by (cases ps) auto
  qed
qed

lemma takeWhile_no_sep: "sep \<notin> set s \<Longrightarrow> takeWhile (\<lambda>c. c \<noteq> sep) s = s"
  by (induction s) auto

lemma dropWhile_no_sep: "sep \<notin> set s \<Longrightarrow> dropWhile (\<lambda>c. c \<noteq> sep) s = []"
  by (induction s) auto

lemma takeWhile_first_sep:
  "sep \<notin> set a \<Longrightarrow> takeWhile (\<lambda>c. c \<noteq> sep) (a @ sep # b) = a"
  by (induction a) auto

lemma dropWhile_first_sep:
  "sep \<notin> set a \<Longrightarrow> dropWhile (\<lambda>c. c \<noteq> sep) (a @ sep # b) = sep # b"
  by (induction a) auto

lemma before_no_space: "SP \<notin> set s \<Longrightarrow> beforeFirstSpace s = s"
  by (simp add: beforeFirstSpace_def takeWhile_no_sep)

lemma after_no_space: "SP \<notin> set s \<Longrightarrow> afterFirstSpace s = []"
  by (simp add: afterFirstSpace_def dropWhile_no_sep)

lemma before_first_space: "SP \<notin> set a \<Longrightarrow> beforeFirstSpace (a @ SP # b) = a"
  by (simp add: beforeFirstSpace_def takeWhile_first_sep)

lemma after_first_space: "SP \<notin> set a \<Longrightarrow> afterFirstSpace (a @ SP # b) = b"
  by (simp add: afterFirstSpace_def dropWhile_first_sep)

lemma hd_split_on:
  "(case split_on SP s of [] \<Rightarrow> None | p # _ \<Rightarrow> Some p) = Some (beforeFirstSpace s)"
proof (cases "SP \<in> set s")
  case True
  then obtain a b where "s = a @ SP # b" and "SP \<notin> set a"
    by (auto dest: split_list_first)
  then show ?thesis
    by (simp add: split_on_first_sep before_first_space)
next
  case False
  then show ?thesis
    by (simp add: split_on_no_sep before_no_space)
qed

lemma tl_split_on:
  "join [SP] (drop 1 (split_on SP s)) = afterFirstSpace s"
proof (cases "SP \<in> set s")
  case True
  then obtain a b where "s = a @ SP # b" and "SP \<notin> set a"
    by (auto dest: split_list_first)
  then show ?thesis
    by (simp add: split_on_first_sep after_first_space join_split_on)
next
  case False
  then show ?thesis
    by (simp add: split_on_no_sep after_no_space)
qed

lemma js_or_same: "js_or (Some s) (Some []) = Some s"
  by (simp add: js_or_def)

lemma resolveNames_split:
  assumes "\<not> truthy (firstNameField r)" and "\<not> truthy (lastNameField r)"
    and "nameField r = Some n" and "n \<noteq> []"
  shows "resolveNames r = (Some (beforeFirstSpace (trim n)), Some (afterFirstSpace (trim n)))"
  using assms
  by (simp add: resolveNames_def hd_split_on tl_split_on js_or_same del: One_nat_def)

lemma resolveNames_other:
  assumes "truthy (firstNameField r) \<or> truthy (lastNameField r) \<or> \<not> truthy (nameField r)"
  shows "resolveNames r = (firstNameField r, lastNameField r)"
  using assms by (auto simp: resolveNames_def)

lemma js_or_None: "js_or None b = b"
  by (simp add: js_or_def)

lemma firstPresent_phone:
  "truthy (phoneField r) \<Longrightarrow> firstPresent r phoneAliases = phoneField r"
  by (auto simp: phoneField_def phoneAliases_def js_or_def)

subsection \<open>The name and phone of a row\<close>

lemma firstNameField_absent:
  "list_all (\<lambda>k. r k = None) firstAndLastNameAliases \<Longrightarrow> firstNameField r = None"
  by (simp add: firstAndLastNameAliases_def firstNameField_def js_or_def)

lemma lastNameField_absent:
  "list_all (\<lambda>k. r k = None) firstAndLastNameAliases \<Longrightarrow> lastNameField r = None"
  by (simp add: firstAndLastNameAliases_def lastNameField_def js_or_def)

lemma parseRow_Inr:
  assumes "parseRow typeError k r = Inr l"
  shows "\<exists>fn pf ln. resolveNames r = (Some fn, Some ln) \<and> phoneField r = Some pf \<and>
           fn \<noteq> [] \<and> pf \<noteq> [] \<and> phoneRegex (stripSeparators pf) \<and>
           firstName l = trim fn \<and> lastName l = trim ln \<and>
           lead.phone l = formatPhoneNumber (stripSeparators pf)"
proof -
  obtain a b where ab: "resolveNames r = (a, b)" by (cases "resolveNames r")
  from assms ab show ?thesis
    by (auto simp: parseRow_def Let_def split: option.splits if_splits)
qed

text \<open>
  C6, as amended. For every row that has none of the first-name and last-name columns and
  whose \<^verbatim>\<open>name\<close> column (\<^verbatim>\<open>Name\<close> when \<^verbatim>\<open>name\<close> is absent or empty) holds a
  non-empty value \<open>n\<close>: \<^verbatim>\<open>firstName\<close> is the text of the trimmed name before its first
  space and \<^verbatim>\<open>lastName\<close> everything after that space (empty when there is none); the
  lead of the row, when the row yields one, stores both with the white space around them
  trimmed, and its phone is the normalised value of the first phone alias that is present
  and not empty; and whenever the name and the phone resolve, the phone field is that
  first alias.
\<close>

theorem name_column_split_then_trimmed:
  assumes "list_all (\<lambda>k. r k = None) firstAndLastNameAliases"
    and "nameField r = Some n" and "n \<noteq> []"
  shows "resolveNames r = (Some (beforeFirstSpace (trim n)), Some (afterFirstSpace (trim n))) \<and>
         (SP \<notin> set (trim n) \<longrightarrow> afterFirstSpace (trim n) = []) \<and>
         (\<forall>l. parseRow typeError k r = Inr l \<longrightarrow>
            firstName l = trim (beforeFirstSpace (trim n)) \<and>
            lastName l = trim (afterFirstSpace (trim n)) \<and>
            (\<exists>pf. firstPresent r phoneAliases = Some pf \<and>
                  lead.phone l = formatPhoneNumber (stripSeparators pf))) \<and>
         (truthy (fst (resolveNames r)) \<and> truthy (phoneField r) \<longrightarrow>
            phoneField r = firstPresent r phoneAliases)"
proof -
  have names: "resolveNames r = (Some (beforeFirstSpace (trim n)), Some (afterFirstSpace (trim n)))"
    using assms by (simp add: resolveNames_split firstNameField_absent lastNameField_absent)
  have lead: "firstName l = trim (beforeFirstSpace (trim n)) \<and>
      lastName l = trim (afterFirstSpace (trim n)) \<and>
      (\<exists>pf. firstPresent r phoneAliases = Some pf \<and>
            lead.phone l = formatPhoneNumber (stripSeparators pf))"
    if "parseRow typeError k r = Inr l" for l
  proof -
    from parseRow_Inr [OF that] obtain fn pf ln where
      p: "resolveNames r = (Some fn, Some ln)" "phoneField r = Some pf" "pf \<noteq> []"
        "firstName l = trim fn" "lastName l = trim ln"
        "lead.phone l = formatPhoneNumber (stripSeparators pf)"
      by blast
    from p(2,3) have "truthy (phoneField r)" by simp
    then have "firstPresent r phoneAliases = Some pf"
      using p(2) by (simp add: firstPresent_phone)
    with p names show ?thesis by simp
  qed
  have phone: "phoneField r = firstPresent r phoneAliases" if "truthy (phoneField r)"
    using that by (simp add: firstPresent_phone)
  from names lead phone show ?thesis
    by (simp add: after_no_space)
qed

lemma doubleSpaceRow_parsed:
  "parseRow typeError k doubleSpaceRow =
     Inr \<lparr>firstName = js ''John'', lastName = js ''Smith'', phone = js ''+14155552671'',
          email = None, company = None, title = None, status = js ''pending'',
          callAttempts = 0\<rparr>"
  by (simp add: parseRow_def resolveNames_def doubleSpaceRow_def firstNameField_def
      lastNameField_def nameField_def phoneField_def js_or_def js_simps trim_def
      isWhiteSpace_def SP_def stripSeparators_def phoneRegex_def startsWith_def isDigit_def
      format_cases cleaned_def)


lemma doubleSpaceRow_columns:
  "list_all (\<lambda>k. doubleSpaceRow k = None) firstAndLastNameAliases"
  "nameField doubleSpaceRow = Some (js ''John  Smith'')"
  "firstPresent doubleSpaceRow phoneAliases = Some (js ''+1 (415) 555-2671'')"
  by (simp_all add: doubleSpaceRow_def firstAndLastNameAliases_def nameField_def
      phoneAliases_def js_or_def js_simps)

lemma doubleSpace_split:
  "beforeFirstSpace (trim (js ''John  Smith'')) = js ''John''"
  "afterFirstSpace (trim (js ''John  Smith'')) = js '' Smith''"
  by (simp_all add: beforeFirstSpace_def afterFirstSpace_def trim_def isWhiteSpace_def SP_def
      js_simps)

lemma doubleSpace_trimmed:
  "trim (js ''John'') = js ''John''"
  "trim (js '' Smith'') = js ''Smith''"
  by (simp_all add: trim_def isWhiteSpace_def js_simps)

theorem name_column_split_then_trimmed_witness:
  "list_all (\<lambda>k. doubleSpaceRow k = None) firstAndLastNameAliases \<and>
   nameField doubleSpaceRow = Some (js ''John  Smith'') \<and>
   js ''John  Smith'' \<noteq> [] \<and>
   resolveNames doubleSpaceRow = (Some (js ''John''), Some (js '' Smith'')) \<and>
   (\<exists>l. parseRow (js ''TypeError'') 1 doubleSpaceRow = Inr l \<and>
        firstName l = js ''John'' \<and> lastName l = js ''Smith'' \<and>
        lead.phone l = formatPhoneNumber (stripSeparators (js ''+1 (415) 555-2671''))) \<and>
   phoneField doubleSpaceRow = Some (js ''+1 (415) 555-2671'')"
proof -
  have ne: "js ''John  Smith'' \<noteq> []" by (simp add: js_simps)
  note t = name_column_split_then_trimmed
    [OF doubleSpaceRow_columns(1) doubleSpaceRow_columns(2) ne, of "js ''TypeError''" 1]
  from t have names:
    "resolveNames doubleSpaceRow = (Some (js ''John''), Some (js '' Smith''))"
    by (simp add: doubleSpace_split)
  obtain l where l: "parseRow (js ''TypeError'') 1 doubleSpaceRow = Inr l"
    by (simp add: doubleSpaceRow_parsed)
  with t have "lastName l = trim (afterFirstSpace (trim (js ''John  Smith'')))"
    and "firstName l = trim (beforeFirstSpace (trim (js ''John  Smith'')))"
    and "\<exists>pf. firstPresent doubleSpaceRow phoneAliases = Some pf \<and>
              lead.phone l = formatPhoneNumber (stripSeparators pf)"
    by blast+
  then have fields: "firstName l = js ''John''" "lastName l = js ''Smith''"
      "lead.phone l = formatPhoneNumber (stripSeparators (js ''+1 (415) 555-2671''))"
    by (simp_all add: doubleSpace_split doubleSpace_trimmed doubleSpaceRow_columns(3))
  have "truthy (fst (resolveNames doubleSpaceRow))"
    using names by (simp add: js_simps)
  moreover have "truthy (phoneField doubleSpaceRow)"
    by (simp add: phoneField_def doubleSpaceRow_def js_or_def js_simps)
  ultimately have "phoneField doubleSpaceRow = firstPresent doubleSpaceRow phoneAliases"
    using t by blast
  with names l fields ne show ?thesis
    by (simp add: doubleSpaceRow_columns)
qed

text \<open>
  C6 as stated fails on the lead: for the name \<^verbatim>\<open>John  Smith\<close> everything after the
  first space is \<^verbatim>\<open> Smith\<close>, with its leading space, and the lead's last name is
  \<^verbatim>\<open>Smith\<close> (line 323 trims it).
\<close>

theorem last_name_not_everything_after_first_space:
  "list_all (\<lambda>k. doubleSpaceRow k = None) firstAndLastNameAliases \<and>
   nameField doubleSpaceRow = Some (js ''John  Smith'') \<and>
   afterFirstSpace (trim (js ''John  Smith'')) = js '' Smith'' \<and>
   (\<exists>l. parseRow (js ''TypeError'') 1 doubleSpaceRow = Inr l \<and>
        lastName l = js ''Smith'' \<and>
        lastName l \<noteq> afterFirstSpace (trim (js ''John  Smith'')))"
proof -
  have "js ''Smith'' \<noteq> js '' Smith''"
    by (simp add: js_simps)
  then show ?thesis
    by (simp add: doubleSpaceRow_columns doubleSpace_split doubleSpaceRow_parsed)
qed

subsection \<open>The rows of a batch\<close>

lemma foldl_onData:
  "foldl (onData typeError) st rows =
     st\<lparr>leads := leads st @ leadsOf (rowOutcomes typeError (lineNumber st) rows),
        upload_state.errors :=
          upload_state.errors st @ messagesOf (rowOutcomes typeError (lineNumber st) rows),
        lineNumber := lineNumber st + length rows\<rparr>"
proof (induction rows arbitrary: st)
  case Nil
  show ?case by simp
next
  case (Cons r rs)
  let ?st = "onData typeError st r"
  have "foldl (onData typeError) st (r # rs) = foldl (onData typeError) ?st rs"
    by simp
  also have "\<dots> =
     ?st\<lparr>leads := leads ?st @ leadsOf (rowOutcomes typeError (lineNumber ?st) rs),
        upload_state.errors :=
          upload_state.errors ?st @ messagesOf (rowOutcomes typeError (lineNumber ?st) rs),
        lineNumber := lineNumber ?st + length rs\<rparr>"
    by (rule Cons)
  also have "\<dots> =
     st\<lparr>leads := leads st @ leadsOf (rowOutcomes typeError (lineNumber st) (r # rs)),
        upload_state.errors :=
          upload_state.errors st @ messagesOf (rowOutcomes typeError (lineNumber st) (r # rs)),
        lineNumber := lineNumber st + length (r # rs)\<rparr>"
    by (cases "parseRow typeError (Suc (lineNumber st)) r") (simp_all add: onData_def)
  finally show ?case .
qed

lemma readRows_leads: "leads (readRows typeError rows) = leadsOf (rowOutcomes typeError 0 rows)"
  by (simp add: readRows_def foldl_onData)

lemma readRows_errors:
  "upload_state.errors (readRows typeError rows) = messagesOf (rowOutcomes typeError 0 rows)"
  by (simp add: readRows_def foldl_onData)

lemma length_rowOutcomes: "length (rowOutcomes typeError n rows) = length rows"
  by (induction rows arbitrary: n) simp_all

lemma nth_rowOutcomes:
  "i < length rows \<Longrightarrow> rowOutcomes typeError n rows ! i = parseRow typeError (n + i + 1) (rows ! i)"
proof (induction rows arbitrary: n i)
  case Nil
  then show ?case by simp
next
  case (Cons r rs)
  then show ?case by (cases i) simp_all
qed

lemma length_messages_leads: "length (messagesOf xs) + length (leadsOf xs) = length xs"
  by (induction xs rule: messagesOf.induct) simp_all

lemma parseRow_missing:
  "\<not> truthy (fst (resolveNames r)) \<or> \<not> truthy (phoneField r) \<Longrightarrow>
   parseRow typeError n r = Inl (lineMessage n (js ''Missing required fields (name and phone)''))"
  by (cases "fst (resolveNames r)"; cases "phoneField r") (auto simp: parseRow_def)

lemma parseRow_invalid_phone:
  "truthy (fst (resolveNames r)) \<Longrightarrow> phoneField r = Some pf \<Longrightarrow> pf \<noteq> [] \<Longrightarrow>
   \<not> phoneRegex (stripSeparators pf) \<Longrightarrow>
   parseRow typeError n r = Inl (lineMessage n (js ''Invalid phone number format''))"
  by (cases "fst (resolveNames r)") (auto simp: parseRow_def)

lemma parseRow_Inl:
  "parseRow typeError n r = Inl m \<Longrightarrow> \<exists>msg. m = lineMessage n msg"
  by (auto simp: parseRow_def Let_def split: option.splits if_splits prod.splits)

lemma firstNameOnlyRow_fields:
  "resolveNames firstNameOnlyRow = (Some (js ''John''), None)"
  "phoneField firstNameOnlyRow = Some (js ''+14155552671'')"
  by (simp_all add: resolveNames_def firstNameOnlyRow_def firstNameField_def lastNameField_def
      nameField_def phoneField_def js_or_def js_simps)

lemma phone_example_valid:
  "stripSeparators (js ''+14155552671'') = js ''+14155552671''"
  "phoneRegex (js ''+14155552671'')"
  by (simp_all add: stripSeparators_def phoneRegex_def startsWith_def isWhiteSpace_def
      isDigit_def js_simps)

lemma firstNameOnlyRow_rejected:
  "parseRow typeError n firstNameOnlyRow = Inl (lineMessage n typeError)"
proof -
  have "js ''John'' \<noteq> []" "js ''+14155552671'' \<noteq> []" by (simp_all add: js_simps)
  then show ?thesis
    by (simp add: parseRow_def firstNameOnlyRow_fields phone_example_valid)
qed

text \<open>
  C7. The claim: a row is left out of the upsert, with one message, when its name or phone
  is missing or its phone does not match the expression, and all other rows of the batch
  are upserted. The row of the line \<^verbatim>\<open>John,+14155552671\<close> under the header
  \<^verbatim>\<open>firstName,phone\<close> has a name and a phone that matches, and passes both checks of the
  handler; \<^verbatim>\<open>lastName\<close> is \<^verbatim>\<open>undefined\<close> there, \<^verbatim>\<open>lastName.trim()\<close> throws, and the
  handler's \<^verbatim>\<open>catch\<close> turns the row into an error message: the batch reports no lead
  and one failure. The optional fields of the same object are read with \<^verbatim>\<open>?.trim()\<close>.
\<close>

theorem row_with_first_name_only_is_rejected:
  "truthy (fst (resolveNames firstNameOnlyRow)) \<and>
   phoneField firstNameOnlyRow = Some (js ''+14155552671'') \<and>
   phoneRegex (stripSeparators (js ''+14155552671'')) \<and>
   parseRow typeError 1 firstNameOnlyRow = Inl (lineMessage 1 typeError) \<and>
   uploadLeadsFromCSV typeError organizationId campaignId [firstNameOnlyRow] [] =
     (Inr \<lparr>success = 0, failed = 1, errors = [lineMessage 1 typeError]\<rparr>, [])"
proof -
  have "js ''John'' \<noteq> []" by (simp add: js_simps)
  then have "truthy (fst (resolveNames firstNameOnlyRow))"
    by (simp add: firstNameOnlyRow_fields)
  moreover have "readRows typeError [firstNameOnlyRow] =
      \<lparr>leads = [], errors = [lineMessage 1 typeError], lineNumber = 1\<rparr>"
    by (simp add: readRows_def onData_def firstNameOnlyRow_rejected)
  then have "uploadLeadsFromCSV typeError organizationId campaignId [firstNameOnlyRow] [] =
     (Inr \<lparr>success = 0, failed = 1, errors = [lineMessage 1 typeError]\<rparr>, [])"
    by (simp add: uploadLeadsFromCSV_def db_upsert_def)
  ultimately show ?thesis
    by (simp add: firstNameOnlyRow_fields phone_example_valid firstNameOnlyRow_rejected)
qed

subsection \<open>The upsert\<close>

lemma upsertRow_update:
  "\<not> ignoreDuplicates opts \<Longrightarrow> upsertRow opts (w, t) r = (w @ [r], upsertTable opts t r)"
  by (simp add: upsertRow_def)








lemma fold_written:
  "\<not> ignoreDuplicates opts \<Longrightarrow> fst (foldl (upsertRow opts) (w, t) ps) = w @ ps"
proof (induction ps arbitrary: w t)
  case Nil
  show ?case by simp
next
  case (Cons r rs)
  then show ?case by (simp add: upsertRow_update)
qed






lemma uploadLeadsFromCSV_unfold:
  "uploadLeadsFromCSV typeError organizationId campaignId rows tbl =
     (let payload = map (upsertPayload organizationId campaignId) (leads (readRows typeError rows)) in
      if distinct (map (conflict_key uploadOptions) payload) then
        (Inr \<lparr>success = length payload,
              failed = length (upload_state.errors (readRows typeError rows)),
              errors = upload_state.errors (readRows typeError rows)\<rparr>,
         snd (foldl (upsertRow uploadOptions) ([], tbl) payload))
      else
        (Inl (js ''Failed to insert leads: '' @
              js ''ON CONFLICT DO UPDATE command cannot affect row a second time''), tbl))"
proof -
  have n: "\<not> ignoreDuplicates uploadOptions" by (simp add: uploadOptions_def)
  obtain w t where f: "foldl (upsertRow uploadOptions) ([], tbl)
      (map (upsertPayload organizationId campaignId) (leads (readRows typeError rows))) = (w, t)"
    by (cases "foldl (upsertRow uploadOptions) ([], tbl)
      (map (upsertPayload organizationId campaignId) (leads (readRows typeError rows)))")
  from fold_written [OF n, of "[]" tbl
      "map (upsertPayload organizationId campaignId) (leads (readRows typeError rows))"] f
  have "w = map (upsertPayload organizationId campaignId) (leads (readRows typeError rows))"
    by simp
  with f n show ?thesis
    by (simp add: uploadLeadsFromCSV_def db_upsert_def Let_def)
qed

lemma conflict_key_upload:
  "conflict_key uploadOptions r = [lead_row.organization_id r, lead_row.phone r]"
  by (simp add: conflict_key_def uploadOptions_def)

lemma conflict_key_payload:
  "conflict_key uploadOptions (upsertPayload organizationId campaignId l) =
     [organizationId, lead.phone l]"
  by (simp add: conflict_key_upload upsertPayload_def)


text \<open>
  What a batch returns, whatever rows were rejected: every message names the line of its
  row; when the promise resolves, \<^verbatim>\<open>failed\<close> is the number of messages and every row
  is counted once, as a lead written or as a failure; and the promise is rejected only
  when two leads of the batch have the same phone, never because a row was rejected.
\<close>

lemma rejected_message_names_line:
  assumes "i < length rows" and "rowOutcomes typeError 0 rows ! i = Inl m"
  shows "\<exists>msg. m = lineMessage (i + 1) msg"
proof -
  from assms have "parseRow typeError (i + 1) (rows ! i) = Inl m"
    by (simp add: nth_rowOutcomes)
  then show ?thesis by (rule parseRow_Inl)
qed

lemma upload_counts_row_failures:
  assumes "uploadLeadsFromCSV typeError organizationId campaignId rows tbl = (Inr s, tbl')"
  shows "failed s = length (upload_summary.errors s) \<and>
         upload_summary.errors s = messagesOf (rowOutcomes typeError 0 rows) \<and>
         success s = length (leadsOf (rowOutcomes typeError 0 rows)) \<and>
         success s + failed s = length rows"
proof -
  from assms have s: "s = \<lparr>success = length (leads (readRows typeError rows)),
      failed = length (upload_state.errors (readRows typeError rows)),
      errors = upload_state.errors (readRows typeError rows)\<rparr>"
    by (auto simp: uploadLeadsFromCSV_unfold Let_def split: if_splits)
  have "length (messagesOf (rowOutcomes typeError 0 rows)) +
      length (leadsOf (rowOutcomes typeError 0 rows)) = length rows"
    by (simp only: length_messages_leads length_rowOutcomes)
  with s show ?thesis
    by (simp add: readRows_leads readRows_errors)
qed

lemma distinct_org_phone:
  "distinct (map (\<lambda>l. [organizationId, lead.phone l]) ls) = distinct (map lead.phone ls)"
  by (induction ls) auto

lemma upload_rejects_only_on_duplicates:
  "(\<exists>e. fst (uploadLeadsFromCSV typeError organizationId campaignId rows tbl) = Inl e) \<longleftrightarrow>
   \<not> distinct (map (\<lambda>l. lead.phone l) (leads (readRows typeError rows)))"
proof -
  let ?ls = "leads (readRows typeError rows)"
  have "conflict_key uploadOptions \<circ> upsertPayload organizationId campaignId =
      (\<lambda>l. [organizationId, lead.phone l])"
    by (rule ext) (simp add: conflict_key_payload)
  then have "distinct (map (conflict_key uploadOptions)
      (map (upsertPayload organizationId campaignId) ?ls)) =
      distinct (map (\<lambda>l. [organizationId, lead.phone l]) ?ls)"
    by simp
  also have "\<dots> = distinct (map (\<lambda>l. lead.phone l) ?ls)"
    by (rule distinct_org_phone)
  finally have "distinct (map (conflict_key uploadOptions)
      (map (upsertPayload organizationId campaignId) ?ls)) =
      distinct (map (\<lambda>l. lead.phone l) ?ls)" .
  then show ?thesis
    by (simp add: uploadLeadsFromCSV_unfold Let_def del: map_map)
qed




















section \<open>Properties of the call processing\<close>

lemma makeCall_outcome:
  "fst (makeCall sv organizationId campaignId l a p d) =
   fst (makeCall sv organizationId campaignId l a p d')"
  by (simp add: makeCall_def Let_def split: option.splits)

lemma callReturns_db:
  "callReturns sv organizationId campaignId campaign d l =
   callReturns sv organizationId campaignId campaign d' l"
  unfolding callReturns_def
  by (simp only: makeCall_outcome [of sv organizationId campaignId l _ _ d d'])

lemma leadEvents_db:
  "leadEvents sv organizationId campaignId campaign d =
   leadEvents sv organizationId campaignId campaign d'"
proof (rule ext)
  fix l
  show "leadEvents sv organizationId campaignId campaign d l =
        leadEvents sv organizationId campaignId campaign d' l"
    unfolding leadEvents_def
    by (simp only: callReturns_db [of sv organizationId campaignId campaign d l d'])
qed

lemma callLoop_step:
  "fst (callLoop sv organizationId campaignId campaign (l # ls) d) =
     leadEvents sv organizationId campaignId campaign d l @
     fst (callLoop sv organizationId campaignId campaign ls
           (snd (makeCall sv organizationId campaignId l (assistant_id campaign)
                   (phone_number_id campaign) d)))"
proof -
  obtain res d1 where m: "makeCall sv organizationId campaignId l (assistant_id campaign)
      (phone_number_id campaign) d = (res, d1)"
    by (cases "makeCall sv organizationId campaignId l (assistant_id campaign)
      (phone_number_id campaign) d")
  obtain tr d2 where r: "callLoop sv organizationId campaignId campaign ls d1 = (tr, d2)"
    by (cases "callLoop sv organizationId campaignId campaign ls d1")
  from m r show ?thesis
    by (cases res) (simp_all add: leadEvents_def callReturns_def)
qed

lemma callLoop_events:
  "fst (callLoop sv organizationId campaignId campaign ls d) =
     concat (map (leadEvents sv organizationId campaignId campaign d) ls)"
proof (induction ls arbitrary: d)
  case Nil
  show ?case by simp
next
  case (Cons l ls)
  let ?d1 = "snd (makeCall sv organizationId campaignId l (assistant_id campaign)
                   (phone_number_id campaign) d)"
  have "fst (callLoop sv organizationId campaignId campaign ls ?d1) =
      concat (map (leadEvents sv organizationId campaignId campaign ?d1) ls)"
    by (rule Cons)
  also have "leadEvents sv organizationId campaignId campaign ?d1 =
      leadEvents sv organizationId campaignId campaign d"
    by (rule leadEvents_db)
  finally show ?case
    by (simp only: callLoop_step list.map concat.simps)
qed

lemma attempts_append: "attempts (a @ b) = attempts a @ attempts b"
  by (induction a rule: attempts.induct) simp_all









lemma example_ids:
  "js ''lead-1'' \<noteq> js ''lead-2''" "js ''+14155552671'' \<noteq> js ''+14155552672''"
  "js ''+14155552672'' \<noteq> js ''+14155552671''"
  by (simp_all add: js_simps)

lemma example_phones:
  "formatPhoneNumber (js ''+14155552671'') = js ''+14155552671''"
  "formatPhoneNumber (js ''+14155552672'') = js ''+14155552672''"
  by (simp_all add: format_cases cleaned_def isDigit_def js_simps)

lemma exampleDb_fetch:
  "fetchPendingLeads (js ''campaign-1'') exampleDb = [lead1, lead2]"
  "fetchCampaign (js ''campaign-1'') exampleDb = Some campaign1"
  "fetchPendingLeads (js ''campaign-1'') dbWithoutCampaign = [lead1]"
  "fetchCampaign (js ''campaign-1'') dbWithoutCampaign = None"
  by (simp_all add: fetchPendingLeads_def fetchCampaign_def exampleDb_def dbWithoutCampaign_def
      lead1_def lead2_def campaign1_def)

lemma example_plus:
  "startsWith (js ''+14155552671'') (js ''+'')" "startsWith (js ''+14155552672'') (js ''+'')"
  by (simp_all add: startsWith_def js_simps)

lemma example_numbers:
  "number (customer (callRequestOf lead1 a p)) = js ''+14155552671''"
  "number (customer (callRequestOf lead2 a p)) = js ''+14155552672''"
  by (simp_all add: callRequestOf_def Let_def lead1_def lead2_def example_phones example_plus)

lemma flakyApi_calls:
  "createVapiCall flakyApi (callRequestOf lead1 a p) lead1 = None"
  "createVapiCall flakyApi (callRequestOf lead2 a p) lead2 = Some (js ''call-2'')"
  by (simp_all add: createVapiCall_def flakyApi_def example_numbers example_ids)

lemma flakyApi_returns:
  "\<not> callReturns flakyApi organizationId campaignId campaign d lead1"
  "callReturns flakyApi organizationId campaignId campaign d lead2"
  by (simp_all add: callReturns_def makeCall_def flakyApi_calls Let_def)
    (simp_all add: flakyApi_def isMockCall_def)

lemma flakyApi_events:
  "fst (processCampaignCalls flakyApi organizationId (js ''campaign-1'') exampleDb) =
     [CallAttempt lead1 (js ''assistant-1'') None, CallFailureLogged (js ''lead-1''),
      CallAttempt lead2 (js ''assistant-1'') None, Wait 2000]"
  by (simp add: processCampaignCalls_def exampleDb_fetch callLoop_events leadEvents_def
      flakyApi_returns campaign1_def del: callLoop.simps)
    (simp add: lead1_def)





text \<open>
  The wait after a call that failed. The comment of line 669 asks for a delay between
  calls; the wait of line 670 stands inside the \<^verbatim>\<open>try\<close>, after the \<^verbatim>\<open>await\<close> that
  throws, so the call to the second lead follows the failed call to the first at once.
\<close>

lemma failed_call_is_followed_by_no_wait:
  "fst (processCampaignCalls flakyApi (js ''org-1'') (js ''campaign-1'') exampleDb) =
     [CallAttempt lead1 (js ''assistant-1'') None, CallFailureLogged (js ''lead-1''),
      CallAttempt lead2 (js ''assistant-1'') None, Wait 2000]"
  by (rule flakyApi_events)

end
